theory Spec2Isabelle
  imports Complex_Main
begin

section \<open>JavaScript values\<close>

text \<open>
  The program is JavaScript (React with a three.js scene). Its numbers are modelled as
  real numbers together with \<open>NaN\<close>: the arithmetic of the model is exact, so rounding
  and the infinities of IEEE doubles are outside it, while \<open>NaN\<close>, which the code
  produces whenever an absent field enters a product, is kept. \<open>Math.cos\<close> and \<open>Math.sin\<close>
  are the real cosine and sine.
\<close>

datatype jsnum = Num real | NaN

fun mul :: "jsnum \<Rightarrow> jsnum \<Rightarrow> jsnum" where
  "mul (Num a) (Num b) = Num (a * b)"
| "mul _ _ = NaN"

fun add :: "jsnum \<Rightarrow> jsnum \<Rightarrow> jsnum" where
  "add (Num a) (Num b) = Num (a + b)"
| "add _ _ = NaN"

fun Math_cos :: "jsnum \<Rightarrow> jsnum" where
  "Math_cos (Num a) = Num (cos a)"
| "Math_cos NaN = NaN"

fun Math_sin :: "jsnum \<Rightarrow> jsnum" where
  "Math_sin (Num a) = Num (sin a)"
| "Math_sin NaN = NaN"

text \<open>
  An optional field of an object literal is an \<open>option\<close>: \<open>None\<close> is \<open>undefined\<close>.
  \<open>number_of\<close> is the conversion an arithmetic operator applies to its operand
  (\<open>undefined\<close> becomes \<open>NaN\<close>); \<open>truthy_number\<close> and \<open>truthy_string\<close> are the tests
  that \<open>&&\<close>, \<open>!\<close> and \<open>if\<close> apply to a number and to a string.
\<close>

fun number_of :: "real option \<Rightarrow> jsnum" where
  "number_of None = NaN"
| "number_of (Some r) = Num r"

fun truthy_number :: "real option \<Rightarrow> bool" where
  "truthy_number None = False"
| "truthy_number (Some r) = (r \<noteq> 0)"

fun truthy_string :: "string option \<Rightarrow> bool" where
  "truthy_string None = False"
| "truthy_string (Some s) = (s \<noteq> [])"

text \<open>
  The values a field of the settings object holds: the control panel stores the result
  of \<open>parseFloat\<close> (a number, possibly \<open>NaN\<close>) and the state of a checkbox.
\<close>

datatype jsval = JNumber jsnum | JBoolean bool

fun truthy :: "jsval option \<Rightarrow> bool" where
  "truthy None = False"
| "truthy (Some (JBoolean b)) = b"
| "truthy (Some (JNumber (Num r))) = (r \<noteq> 0)"
| "truthy (Some (JNumber NaN)) = False"

fun to_number :: "jsval option \<Rightarrow> jsnum" where
  "to_number None = NaN"
| "to_number (Some (JNumber n)) = n"
| "to_number (Some (JBoolean b)) = Num (if b then 1 else 0)"

datatype js_error = TypeError

section \<open>The body registry (\<open>planetaryData\<close>)\<close>

text \<open>
  One entry of \<open>planetaryData\<close>. Only the fields the scene's kinematics and guides read
  are kept (\<open>name\<close>, \<open>color\<close>, \<open>description\<close>, \<open>facts\<close>, \<open>texture\<close> and the
  rendering flags are display data). The field \<open>id\<close> is called \<open>body_id\<close> here.
\<close>

record body =
  body_id :: string
  radius :: real
  orbitRadius :: "real option"
  orbitSpeed :: "real option"
  rotationSpeed :: real
  parent :: "string option"
  position :: "real \<times> real \<times> real"

text \<open>
  The registry is an object literal: its properties, under distinct keys, in
  insertion order. \<open>Object_values\<close> is \<open>Object.values\<close>, \<open>property\<close> is the access
  \<open>planetaryData.key\<close>, which yields \<open>undefined\<close> for a key that is not there.
\<close>

type_synonym registry = "(string \<times> body) list"

definition Object_values :: "registry \<Rightarrow> body list" where
  "Object_values reg = map snd reg"

definition property :: "registry \<Rightarrow> string \<Rightarrow> body option" where
  "property reg key = map_of reg key"

definition sun :: body where
  "sun = \<lparr> body_id = ''sun'', radius = 5, orbitRadius = None, orbitSpeed = None,
           rotationSpeed = 0.001, parent = None, position = (0, 0, 0) \<rparr>"

definition mercury :: body where
  "mercury = \<lparr> body_id = ''mercury'', radius = 0.8, orbitRadius = Some 15,
               orbitSpeed = Some 0.02, rotationSpeed = 0.005, parent = None,
               position = (15, 0, 0) \<rparr>"

definition venus :: body where
  "venus = \<lparr> body_id = ''venus'', radius = 1.2, orbitRadius = Some 22,
             orbitSpeed = Some 0.015, rotationSpeed = - 0.002, parent = None,
             position = (22, 0, 0) \<rparr>"

definition earth :: body where
  "earth = \<lparr> body_id = ''earth'', radius = 1.3, orbitRadius = Some 30,
             orbitSpeed = Some 0.01, rotationSpeed = 0.01, parent = None,
             position = (30, 0, 0) \<rparr>"

definition moon :: body where
  "moon = \<lparr> body_id = ''moon'', radius = 0.35, orbitRadius = Some 4,
            orbitSpeed = Some 0.05, rotationSpeed = 0.05, parent = Some ''earth'',
            position = (34, 0, 0) \<rparr>"

definition planetaryData :: registry where
  "planetaryData =
     [(''sun'', sun), (''mercury'', mercury), (''venus'', venus), (''earth'', earth),
      (''moon'', moon)]"

section \<open>Settings\<close>

text \<open>
  The settings object, with the dynamic update of \<open>handleSettingChange\<close>:
  \<open>{...prev, [key]: value}\<close>.
\<close>

type_synonym settings = "string \<rightharpoonup> jsval"

definition simulationSettings :: settings where
  "simulationSettings =
     [''timeSpeed'' \<mapsto> JNumber (Num 1),
      ''showOrbits'' \<mapsto> JBoolean True,
      ''showLabels'' \<mapsto> JBoolean True,
      ''cameraDistance'' \<mapsto> JNumber (Num 80),
      ''ambientLightIntensity'' \<mapsto> JNumber (Num 0.2),
      ''pointLightIntensity'' \<mapsto> JNumber (Num 1.5)]"

definition handleSettingChange :: "string \<Rightarrow> jsval \<Rightarrow> settings \<Rightarrow> settings" where
  "handleSettingChange key val prev = prev(key \<mapsto> val)"

section \<open>The \<open>Planet\<close> component\<close>

text \<open>
  The three.js mesh behind \<open>meshRef\<close>: the parts of its position and rotation. The
  element is created with \<open>position={data.position}\<close> and no rotation.
\<close>

record mesh =
  position_x :: jsnum
  position_y :: jsnum
  position_z :: jsnum
  rotation_x :: real
  rotation_y :: real
  rotation_z :: real

definition Planet_mesh :: "body \<Rightarrow> mesh" where
  "Planet_mesh data =
     (case position data of (x, y, z) \<Rightarrow>
        \<lparr> position_x = Num x, position_y = Num y, position_z = Num z,
          rotation_x = 0, rotation_y = 0, rotation_z = 0 \<rparr>)"

text \<open>
  The callback \<open>Planet\<close> hands to \<open>useFrame\<close>. It runs on \<open>meshRef.current\<close> (\<open>None\<close>
  while the ref is empty) and returns how it ended (\<open>Some TypeError\<close> when the access
  \<open>planetaryData.earth.orbitSpeed\<close> finds no \<open>earth\<close>) with the mesh as it then is: the
  spin has been added before the branch is taken.
\<close>

fun Planet_useFrame ::
  "registry \<Rightarrow> body \<Rightarrow> jsnum \<Rightarrow> mesh option \<Rightarrow> js_error option \<times> mesh option" where
  "Planet_useFrame reg data time None = (None, None)"
| "Planet_useFrame reg data time (Some m) =
     (let m1 = m\<lparr> rotation_y := rotation_y m + rotationSpeed data \<rparr> in
      if truthy_number (orbitRadius data) \<and> \<not> truthy_string (parent data) then
        (let angle = mul time (number_of (orbitSpeed data)) in
         (None, Some (m1\<lparr> position_x := mul (Math_cos angle) (number_of (orbitRadius data)),
                           position_z := mul (Math_sin angle) (number_of (orbitRadius data)) \<rparr>)))
      else if truthy_string (parent data) then
        (case property reg ''earth'' of
           None \<Rightarrow> (Some TypeError, Some m1)
         | Some e \<Rightarrow>
             (let earthAngle = mul time (number_of (orbitSpeed e));
                  earthX = mul (Math_cos earthAngle) (number_of (orbitRadius e));
                  earthZ = mul (Math_sin earthAngle) (number_of (orbitRadius e));
                  moonAngle = mul time (number_of (orbitSpeed data))
              in (None,
                  Some (m1\<lparr> position_x :=
                              add earthX (mul (Math_cos moonAngle) (number_of (orbitRadius data))),
                            position_z :=
                              add earthZ (mul (Math_sin moonAngle) (number_of (orbitRadius data))) \<rparr>))))
      else (None, Some m1))"

section \<open>The \<open>OrbitPath\<close> component\<close>

type_synonym vector3 = "jsnum \<times> jsnum \<times> jsnum"

definition OrbitPath_points :: "real option \<Rightarrow> vector3 list" where
  "OrbitPath_points r =
     map (\<lambda>i. let angle = real i / 64 * pi * 2 in
               (mul (Num (cos angle)) (number_of r), Num 0, mul (Num (sin angle)) (number_of r)))
         [0 ..< 65]"

text \<open>The component returns the line through its points, or \<open>null\<close>.\<close>

definition OrbitPath :: "real option \<Rightarrow> jsval option \<Rightarrow> vector3 list option" where
  "OrbitPath r visible = (if truthy visible then Some (OrbitPath_points r) else None)"

section \<open>The \<open>SolarSystemScene\<close> component\<close>

text \<open>
  What one render of the scene produces, as far as guides and bodies go: what each
  \<open>OrbitPath\<close> element of the map over the registry rendered, what the one in the
  group for the moon rendered (no entry when the group is not there), and the
  \<open>Planet\<close> elements with their \<open>data\<close> and \<open>time\<close>.
\<close>

record scene =
  orbit_paths :: "vector3 list option list"
  moon_orbit :: "vector3 list option list"
  planets :: "(body \<times> jsnum) list"

definition SolarSystemScene ::
  "registry \<Rightarrow> settings \<Rightarrow> jsnum \<Rightarrow> js_error + scene" where
  "SolarSystemScene reg s time =
     (let paths = map (\<lambda>planet. OrbitPath (orbitRadius planet) (s ''showOrbits''))
                    (filter (\<lambda>planet. truthy_number (orbitRadius planet) \<and>
                                       \<not> truthy_string (parent planet))
                       (Object_values reg));
          ps = map (\<lambda>planet. (planet, time)) (Object_values reg)
      in if truthy (s ''showOrbits'') then
           (case property reg ''moon'' of
              None \<Rightarrow> Inl TypeError
            | Some mn \<Rightarrow>
                Inr \<lparr> orbit_paths = paths,
                      moon_orbit = [OrbitPath (orbitRadius mn) (s ''showOrbits'')],
                      planets = ps \<rparr>)
         else Inr \<lparr> orbit_paths = paths, moon_orbit = [], planets = ps \<rparr>)"

text \<open>The guide lines a scene shows: the paths that are not \<open>null\<close>.\<close>

definition guides :: "scene \<Rightarrow> vector3 list list" where
  "guides sc = List.map_filter (\<lambda>l. l) (orbit_paths sc @ moon_orbit sc)"

text \<open>The callback of the scene: \<open>setTime(prev => prev + settings.timeSpeed * 0.01)\<close>.\<close>

definition SolarSystemScene_useFrame :: "settings \<Rightarrow> jsnum \<Rightarrow> jsnum" where
  "SolarSystemScene_useFrame s prev = add prev (mul (to_number (s ''timeSpeed'')) (Num 0.01))"

section \<open>Frames\<close>

text \<open>
  The state a session carries from frame to frame: the \<open>time\<close> of the scene
  (\<open>useState(0)\<close>) and the mesh of each \<open>Planet\<close>, in the order of the registry.
  A frame calls the callbacks in the order of their subscription: those of the
  \<open>Planet\<close> children, each with the \<open>time\<close> it was last rendered with, then the
  scene's own, whose \<open>setTime\<close> takes effect with the next render. A callback that
  throws ends the frame.
\<close>

record state =
  time :: jsnum
  meshes :: "mesh option list"

definition mount :: "registry \<Rightarrow> state" where
  "mount reg = \<lparr> time = Num 0, meshes = map (\<lambda>data. Some (Planet_mesh data)) (Object_values reg) \<rparr>"

fun Planets_useFrame ::
  "registry \<Rightarrow> jsnum \<Rightarrow> body list \<Rightarrow> mesh option list \<Rightarrow> js_error option \<times> mesh option list" where
  "Planets_useFrame reg t (data # ds) (m # ms) =
     (case Planet_useFrame reg data t m of
        (Some e, m') \<Rightarrow> (Some e, m' # ms)
      | (None, m') \<Rightarrow>
          (case Planets_useFrame reg t ds ms of (r, ms') \<Rightarrow> (r, m' # ms')))"
| "Planets_useFrame reg t _ ms = (None, ms)"

definition frame :: "registry \<Rightarrow> settings \<Rightarrow> state \<Rightarrow> js_error option \<times> state" where
  "frame reg s st =
     (case Planets_useFrame reg (time st) (Object_values reg) (meshes st) of
        (Some e, ms) \<Rightarrow> (Some e, st\<lparr> meshes := ms \<rparr>)
      | (None, ms) \<Rightarrow> (None, \<lparr> time = SolarSystemScene_useFrame s (time st), meshes = ms \<rparr>))"

text \<open>
  A run of frames, one settings object per frame (the user may change the settings
  between two frames). The host calls the next frame whatever the last one did.
\<close>

fun frames :: "registry \<Rightarrow> settings list \<Rightarrow> state \<Rightarrow> state" where
  "frames reg [] st = st"
| "frames reg (s # ss) st = frames reg ss (snd (frame reg s st))"

section \<open>Resolved positions\<close>

text \<open>
  The position of a mesh as a vector, and the position a body resolves to at a time:
  the one its callback leaves on the mesh \<open>Planet\<close> created for it (\<open>None\<close> when the
  callback throws). \<open>position_1\<close> is \<open>data.position[1]\<close>.
\<close>

definition mesh_position :: "mesh \<Rightarrow> vector3" where
  "mesh_position m = (position_x m, position_y m, position_z m)"

definition resolvedPosition :: "registry \<Rightarrow> body \<Rightarrow> jsnum \<Rightarrow> vector3 option" where
  "resolvedPosition reg data t =
     (case Planet_useFrame reg data t (Some (Planet_mesh data)) of
        (None, Some m) \<Rightarrow> Some (mesh_position m)
      | _ \<Rightarrow> None)"

definition position_1 :: "body \<Rightarrow> real" where
  "position_1 data = (case position data of (x, y, z) \<Rightarrow> y)"

text \<open>The length of a vector (three.js \<open>Vector3.length\<close>): its distance to the origin.\<close>

fun Vector3_length :: "vector3 \<Rightarrow> jsnum" where
  "Vector3_length (Num x, Num y, Num z) = Num (sqrt (x * x + y * y + z * z))"
| "Vector3_length _ = NaN"

text \<open>The positions and the spins of all meshes of a state.\<close>

definition positions :: "state \<Rightarrow> vector3 option list" where
  "positions st = map (map_option mesh_position) (meshes st)"

definition spins :: "state \<Rightarrow> real option list" where
  "spins st = map (map_option rotation_y) (meshes st)"

text \<open>
  The first render of \<open>PlanetarySystem\<close>: the scene with the settings
  \<open>useState(simulationSettings)\<close> and the time \<open>useState(0)\<close>. Nothing else runs
  before it.
\<close>

definition PlanetarySystem :: "registry \<Rightarrow> js_error + scene" where
  "PlanetarySystem reg = SolarSystemScene reg simulationSettings (Num 0)"

section \<open>The specification's rule for a child body\<close>

text \<open>
  Written from the specification's sentence, for comparison with the code: the
  position of the body the \<open>parent\<close> field names, resolved by the rule above, plus the
  child's own offset \<open>(cos(angle) * orbitRadius, 0, sin(angle) * orbitRadius)\<close>.
\<close>

definition spec_child_position :: "registry \<Rightarrow> body \<Rightarrow> jsnum \<Rightarrow> vector3 option" where
  "spec_child_position reg data t =
     (case parent data of
        None \<Rightarrow> None
      | Some p \<Rightarrow>
          (case property reg p of
             None \<Rightarrow> None
           | Some pd \<Rightarrow>
               (case resolvedPosition reg pd t of
                  None \<Rightarrow> None
                | Some (px, py, pz) \<Rightarrow>
                    (let angle = mul t (number_of (orbitSpeed data)) in
                     Some (add px (mul (Math_cos angle) (number_of (orbitRadius data))),
                           add py (Num 0),
                           add pz (mul (Math_sin angle) (number_of (orbitRadius data))))))))"

section \<open>Further registries\<close>

text \<open>
  Bodies and registries of the same shape as the shipped ones, used as test inputs: a
  satellite of Mercury added to the shipped registry; the shipped registry with the
  moon's \<open>parent\<close> naming a body that is not there; a body whose base position lies
  above the orbital plane; a body whose orbit radius is \<open>0\<close>; a registry without a
  \<open>moon\<close> entry.
\<close>

definition probe :: body where
  "probe = \<lparr> body_id = ''probe'', radius = 0.1, orbitRadius = Some 2,
             orbitSpeed = Some 0.05, rotationSpeed = 0.05, parent = Some ''mercury'',
             position = (17, 0, 0) \<rparr>"

definition probeData :: registry where
  "probeData = planetaryData @ [(''probe'', probe)]"

definition stray_moon :: body where
  "stray_moon = moon\<lparr> parent := Some ''pluto'' \<rparr>"

definition strayData :: registry where
  "strayData =
     [(''sun'', sun), (''mercury'', mercury), (''venus'', venus), (''earth'', earth),
      (''moon'', stray_moon)]"

definition tilted :: body where
  "tilted = \<lparr> body_id = ''tilted'', radius = 1, orbitRadius = Some 3,
              orbitSpeed = Some 1, rotationSpeed = 0.01, parent = None,
              position = (3, 4, 0) \<rparr>"

definition still :: body where
  "still = \<lparr> body_id = ''still'', radius = 1, orbitRadius = Some 0,
             orbitSpeed = Some 1, rotationSpeed = 0.01, parent = None,
             position = (7, 1, 2) \<rparr>"

definition planetsOnly :: registry where
  "planetsOnly = [(''sun'', sun), (''mercury'', mercury)]"

section \<open>Facts about the registries\<close>

lemma property_planetaryData:
  "property planetaryData ''earth'' = Some earth"
  "property planetaryData ''moon'' = Some moon"
  "property planetaryData ''mercury'' = Some mercury"
  by (simp_all add: property_def planetaryData_def)

lemma property_probeData:
  "property probeData ''earth'' = Some earth"
  "property probeData ''mercury'' = Some mercury"
  "property probeData ''moon'' = Some moon"
  "property probeData ''probe'' = Some probe"
  by (simp_all add: property_def probeData_def planetaryData_def)

lemma property_strayData:
  "property strayData ''earth'' = Some earth"
  "property strayData ''moon'' = Some stray_moon"
  "property strayData ''pluto'' = None"
  by (simp_all add: property_def strayData_def)

section \<open>Position of a body that orbits the origin\<close>

text \<open>
  The resolved position does not depend on the mesh the callback runs on, as long as
  the height of the mesh is that of the base position (which every frame preserves): a
  body in either branch gets its \<open>x\<close> and \<open>z\<close> written anew.
\<close>

lemma resolvedPosition_any_mesh:
  assumes "position_y m = Num (position_1 data)"
    and "truthy_number (orbitRadius data) \<or> truthy_string (parent data)"
    and "truthy_string (parent data) \<longrightarrow> property reg ''earth'' \<noteq> None"
  shows "map_option mesh_position (snd (Planet_useFrame reg data t (Some m))) =
         resolvedPosition reg data t"
  using assms
  by (auto simp: resolvedPosition_def mesh_position_def Planet_mesh_def position_1_def Let_def
        split: prod.split)

text \<open>
  Claim C5, as amended. Take a body with an \<open>orbitRadius\<close> \<open>r\<close> and no parent (the
  field absent or empty), and a simulation time \<open>t\<close>. If \<open>r\<close> is not \<open>0\<close> and the body
  has an \<open>orbitSpeed\<close> \<open>w\<close>, the resolved position is
  \<open>(cos (t * w) * r, position[1], sin (t * w) * r)\<close>: a circle in the horizontal plane
  about the origin, at the height of the base position. If \<open>r\<close> is not \<open>0\<close> and the
  body has no \<open>orbitSpeed\<close>, \<open>x\<close> and \<open>z\<close> are \<open>NaN\<close> and the height is that of the
  base position. If \<open>r\<close> is \<open>0\<close>, the guard \<open>data.orbitRadius && !data.parent\<close> takes the
  body for one without an orbit and it stays at its base position.
\<close>

theorem C5_root_orbit_position:
  assumes "orbitRadius data = Some r" and "\<not> truthy_string (parent data)"
  shows "(r \<noteq> 0 \<and> orbitSpeed data = Some w \<longrightarrow>
            resolvedPosition reg data (Num t) =
              Some (Num (cos (t * w) * r), Num (position_1 data), Num (sin (t * w) * r))) \<and>
         (r \<noteq> 0 \<and> orbitSpeed data = None \<longrightarrow>
            resolvedPosition reg data (Num t) = Some (NaN, Num (position_1 data), NaN)) \<and>
         (r = 0 \<longrightarrow>
            resolvedPosition reg data (Num t) = Some (mesh_position (Planet_mesh data)))"
  using assms
  by (simp add: resolvedPosition_def mesh_position_def Planet_mesh_def position_1_def
        split: prod.split)

theorem C5_witness:
  "orbitRadius earth = Some 30 \<and> \<not> truthy_string (parent earth) \<and>
   resolvedPosition planetaryData earth (Num 2) =
     Some (Num (cos (2 * 0.01) * 30), Num 0, Num (sin (2 * 0.01) * 30)) \<and>
   orbitRadius still = Some 0 \<and> \<not> truthy_string (parent still) \<and>
   resolvedPosition planetaryData still (Num 2) = Some (Num 7, Num 1, Num 2)"
proof -
  have e: "orbitRadius earth = Some 30" "\<not> truthy_string (parent earth)"
    "orbitSpeed earth = Some 0.01" "position_1 earth = 0"
    by (simp_all add: earth_def position_1_def)
  have s: "orbitRadius still = Some 0" "\<not> truthy_string (parent still)"
    "mesh_position (Planet_mesh still) = (Num 7, Num 1, Num 2)"
    by (simp_all add: still_def mesh_position_def Planet_mesh_def)
  have "(30::real) \<noteq> 0"
    by simp
  with C5_root_orbit_position [OF e(1,2), of "0.01" planetaryData 2] e(3,4)
  have a: "resolvedPosition planetaryData earth (Num 2) =
     Some (Num (cos (2 * 0.01) * 30), Num 0, Num (sin (2 * 0.01) * 30))"
    by simp
  from C5_root_orbit_position [OF s(1,2), of 1 planetaryData 2] s(3)
  have b: "resolvedPosition planetaryData still (Num 2) = Some (Num 7, Num 1, Num 2)"
    by simp
  from a b e(1,2) s(1,2) show ?thesis
    by blast
qed

text \<open>
  Claim C5 as stated fails for an orbit radius of \<open>0\<close>: the body \<open>still\<close>, with base
  position \<open>(7, 1, 2)\<close>, resolves to \<open>(7, 1, 2)\<close>, while the formula of the claim gives
  \<open>(0, 1, 0)\<close>.
\<close>

theorem C5_counterexample:
  "orbitRadius still = Some 0 \<and> orbitSpeed still = Some 1 \<and> parent still = None \<and>
   position_1 still = 1 \<and>
   resolvedPosition [(''still'', still)] still (Num 0) = Some (Num 7, Num 1, Num 2) \<and>
   resolvedPosition [(''still'', still)] still (Num 0) \<noteq>
     Some (Num (cos (0 * 1) * 0), Num (position_1 still), Num (sin (0 * 1) * 0))"
  by (simp add: still_def resolvedPosition_def mesh_position_def Planet_mesh_def position_1_def)

text \<open>
  Claim C6, as amended. Take a body with an \<open>orbitRadius\<close> \<open>r\<close> and no parent (the
  field absent or empty), and a simulation time \<open>t\<close>; let \<open>y\<close> be the height
  \<open>position[1]\<close> of its base position. If \<open>r\<close> is not \<open>0\<close> and the body has an
  \<open>orbitSpeed\<close>, the distance of the resolved position to the origin is
  \<open>sqrt (r\<^sup>2 + y\<^sup>2)\<close>; it is \<open>r\<close> when moreover \<open>r\<close> is positive and \<open>y\<close> is \<open>0\<close>. If
  \<open>r\<close> is not \<open>0\<close> and the body has no \<open>orbitSpeed\<close>, the distance is \<open>NaN\<close>. If \<open>r\<close>
  is \<open>0\<close>, the body stays at its base position and the distance is that of the base
  position.
\<close>

theorem C6_distance:
  assumes "orbitRadius data = Some r" and "\<not> truthy_string (parent data)"
  shows "(r \<noteq> 0 \<and> orbitSpeed data = Some w \<longrightarrow>
            map_option Vector3_length (resolvedPosition reg data (Num t)) =
              Some (Num (sqrt (r\<^sup>2 + (position_1 data)\<^sup>2)))) \<and>
         (0 < r \<and> orbitSpeed data = Some w \<and> position_1 data = 0 \<longrightarrow>
            map_option Vector3_length (resolvedPosition reg data (Num t)) = Some (Num r)) \<and>
         (r \<noteq> 0 \<and> orbitSpeed data = None \<longrightarrow>
            map_option Vector3_length (resolvedPosition reg data (Num t)) = Some NaN) \<and>
         (r = 0 \<longrightarrow>
            map_option Vector3_length (resolvedPosition reg data (Num t)) =
              Some (Vector3_length (mesh_position (Planet_mesh data))))"
proof -
  have "(cos (t * w) * r)\<^sup>2 + (sin (t * w) * r)\<^sup>2 =
        ((cos (t * w))\<^sup>2 + (sin (t * w))\<^sup>2) * r\<^sup>2"
    by (simp only: power_mult_distrib distrib_right)
  then have circle: "(cos (t * w) * r)\<^sup>2 + (sin (t * w) * r)\<^sup>2 = r\<^sup>2"
    by (simp only: sin_cos_squared_add2 mult_1)
  have "cos (t * w) * r * (cos (t * w) * r) + position_1 data * position_1 data +
        sin (t * w) * r * (sin (t * w) * r) =
        ((cos (t * w) * r)\<^sup>2 + (sin (t * w) * r)\<^sup>2) + (position_1 data)\<^sup>2"
    by (simp add: power2_eq_square)
  with circle have sq: "cos (t * w) * r * (cos (t * w) * r) + position_1 data * position_1 data +
        sin (t * w) * r * (sin (t * w) * r) = r\<^sup>2 + (position_1 data)\<^sup>2"
    by simp
  have len: "map_option Vector3_length (resolvedPosition reg data (Num t)) =
           Some (Num (sqrt (r\<^sup>2 + (position_1 data)\<^sup>2)))"
    if "r \<noteq> 0" and "orbitSpeed data = Some w"
  proof -
    have "resolvedPosition reg data (Num t) =
           Some (Num (cos (t * w) * r), Num (position_1 data), Num (sin (t * w) * r))"
      using assms that
      by (simp add: resolvedPosition_def mesh_position_def Planet_mesh_def position_1_def
          split: prod.split)
    then show ?thesis
      by (simp add: sq)
  qed
  have flat: "map_option Vector3_length (resolvedPosition reg data (Num t)) = Some (Num r)"
    if "0 < r" and "orbitSpeed data = Some w" and "position_1 data = 0"
    using len [OF _ that(2)] that(1,3) by simp
  have nan: "map_option Vector3_length (resolvedPosition reg data (Num t)) = Some NaN"
    if "r \<noteq> 0" and "orbitSpeed data = None"
    using assms that
    by (simp add: resolvedPosition_def mesh_position_def Planet_mesh_def split: prod.split)
  have zero: "map_option Vector3_length (resolvedPosition reg data (Num t)) =
              Some (Vector3_length (mesh_position (Planet_mesh data)))"
    if "r = 0"
    using assms that
    by (simp add: resolvedPosition_def mesh_position_def Planet_mesh_def split: prod.split)
  from len flat nan zero show ?thesis
    by blast
qed

theorem C6_witness:
  "orbitRadius earth = Some 30 \<and> \<not> truthy_string (parent earth) \<and>
   map_option Vector3_length (resolvedPosition planetaryData earth (Num 7)) = Some (Num 30) \<and>
   orbitRadius tilted = Some 3 \<and> \<not> truthy_string (parent tilted) \<and>
   map_option Vector3_length (resolvedPosition planetaryData tilted (Num 7)) = Some (Num 5)"
proof -
  have e: "orbitRadius earth = Some 30" "\<not> truthy_string (parent earth)"
    "orbitSpeed earth = Some 0.01" "position_1 earth = 0"
    by (simp_all add: earth_def position_1_def)
  have s: "orbitRadius tilted = Some 3" "\<not> truthy_string (parent tilted)"
    "orbitSpeed tilted = Some 1" "position_1 tilted = 4"
    by (simp_all add: tilted_def position_1_def)
  have "(0::real) < 30"
    by simp
  with C6_distance [OF e(1,2), of "0.01" planetaryData 7] e(3,4)
  have a: "map_option Vector3_length (resolvedPosition planetaryData earth (Num 7)) = Some (Num 30)"
    by blast
  have "sqrt 25 = sqrt (5\<^sup>2)" by simp
  then have five: "sqrt 25 = 5" by (simp only: real_sqrt_abs)
  have "(3::real) \<noteq> 0"
    by simp
  with C6_distance [OF s(1,2), of 1 planetaryData 7] s(3)
  have "map_option Vector3_length (resolvedPosition planetaryData tilted (Num 7)) =
          Some (Num (sqrt (3\<^sup>2 + (position_1 tilted)\<^sup>2)))"
    by blast
  then have b: "map_option Vector3_length (resolvedPosition planetaryData tilted (Num 7)) =
          Some (Num 5)"
    by (simp add: s(4) five)
  from a b e(1,2) s(1,2) show ?thesis
    by blast
qed

text \<open>
  Claim C6 as stated fails: the callback never writes the height, so a body whose base
  position is \<open>(3, 4, 0)\<close> and whose orbit radius is \<open>3\<close> resolves, at time \<open>0\<close>, to
  a point at distance \<open>5\<close> from the origin.
\<close>

theorem C6_counterexample:
  "truthy_number (orbitRadius tilted) \<and> \<not> truthy_string (parent tilted) \<and>
   orbitRadius tilted = Some 3 \<and>
   map_option Vector3_length (resolvedPosition [(''tilted'', tilted)] tilted (Num 0)) = Some (Num 5) \<and>
   map_option Vector3_length (resolvedPosition [(''tilted'', tilted)] tilted (Num 0)) \<noteq> Some (Num 3)"
proof -
  have "sqrt 25 = sqrt (5\<^sup>2)" by simp
  then have "sqrt 25 = 5" by (simp only: real_sqrt_abs)
  then show ?thesis
    by (simp add: tilted_def resolvedPosition_def mesh_position_def Planet_mesh_def)
qed

text \<open>
  Claim C7. In the shipped registry, at time \<open>0\<close> Earth resolves to \<open>(30, y, 0)\<close> and
  the Moon to \<open>(34, y, 0)\<close>; at time \<open>pi / 0.01\<close> Earth resolves to \<open>(-30, y, 0)\<close>, each
  \<open>y\<close> being the height of the body's base position.
\<close>

theorem C7_concrete_scenario:
  "property planetaryData ''earth'' = Some earth \<and>
   property planetaryData ''moon'' = Some moon \<and>
   resolvedPosition planetaryData earth (Num 0) = Some (Num 30, Num (position_1 earth), Num 0) \<and>
   resolvedPosition planetaryData moon (Num 0) = Some (Num 34, Num (position_1 moon), Num 0) \<and>
   resolvedPosition planetaryData earth (Num (pi / 0.01)) =
     Some (Num (- 30), Num (position_1 earth), Num 0)"
  by (simp add: property_planetaryData resolvedPosition_def mesh_position_def Planet_mesh_def
        position_1_def earth_def moon_def)

section \<open>Position of a body with a parent\<close>

text \<open>
  Claim C1, as amended. For every body whose \<open>parent\<close> field is set, whatever body
  that field names, the callback adds the body's own offset to the position computed
  from the registry's \<open>earth\<close> entry: with \<open>re\<close>, \<open>we\<close> the orbit radius and speed of
  that entry and \<open>r\<close>, \<open>w\<close> those of the body, the resolved position at time \<open>t\<close> is
  \<open>(cos (t * we) * re + cos (t * w) * r, position[1], sin (t * we) * re + sin (t * w) * r)\<close>,
  the height being the body's own. When the parent is \<open>earth\<close>, a body that orbits the
  origin at the same height, this is the parent's resolved position plus the offset,
  as the specification's rule has it.
\<close>

theorem C1_child_position:
  assumes "truthy_string (parent data)"
    and "property reg ''earth'' = Some e"
    and "orbitRadius e = Some re" and "orbitSpeed e = Some we"
    and "orbitRadius data = Some r" and "orbitSpeed data = Some w"
  shows "resolvedPosition reg data (Num t) =
           Some (Num (cos (t * we) * re + cos (t * w) * r),
                 Num (position_1 data),
                 Num (sin (t * we) * re + sin (t * w) * r)) \<and>
         (parent data = Some ''earth'' \<and> re \<noteq> 0 \<and> \<not> truthy_string (parent e) \<and>
          position_1 e = position_1 data \<longrightarrow>
            resolvedPosition reg data (Num t) = spec_child_position reg data (Num t))"
proof -
  have pos: "resolvedPosition reg data (Num t) =
           Some (Num (cos (t * we) * re + cos (t * w) * r),
                 Num (position_1 data),
                 Num (sin (t * we) * re + sin (t * w) * r))"
    using assms
    by (simp add: resolvedPosition_def mesh_position_def Planet_mesh_def position_1_def
          split: prod.split)
  have "resolvedPosition reg data (Num t) = spec_child_position reg data (Num t)"
    if "parent data = Some ''earth''" and "re \<noteq> 0" and "\<not> truthy_string (parent e)"
      and "position_1 e = position_1 data"
  proof -
    have "resolvedPosition reg e (Num t) =
            Some (Num (cos (t * we) * re), Num (position_1 e), Num (sin (t * we) * re))"
      using assms(3,4) that(2,3)
      by (simp add: resolvedPosition_def mesh_position_def Planet_mesh_def position_1_def
            split: prod.split)
    then show ?thesis
      using assms that by (simp add: pos spec_child_position_def)
  qed
  with pos show ?thesis by blast
qed

theorem C1_witness:
  "truthy_string (parent moon) \<and> property planetaryData ''earth'' = Some earth \<and>
   resolvedPosition planetaryData moon (Num 2) =
     Some (Num (cos (2 * 0.01) * 30 + cos (2 * 0.05) * 4), Num 0,
           Num (sin (2 * 0.01) * 30 + sin (2 * 0.05) * 4)) \<and>
   resolvedPosition planetaryData moon (Num 2) = spec_child_position planetaryData moon (Num 2)"
proof -
  have h: "truthy_string (parent moon)" "orbitRadius earth = Some 30"
    "orbitSpeed earth = Some 0.01" "orbitRadius moon = Some 4" "orbitSpeed moon = Some 0.05"
    by (simp_all add: moon_def earth_def)
  have g: "parent moon = Some ''earth''" "\<not> truthy_string (parent earth)"
    "position_1 earth = 0" "position_1 moon = 0"
    by (simp_all add: moon_def earth_def position_1_def)
  have th: "resolvedPosition planetaryData moon (Num 2) =
           Some (Num (cos (2 * 0.01) * 30 + cos (2 * 0.05) * 4),
                 Num (position_1 moon),
                 Num (sin (2 * 0.01) * 30 + sin (2 * 0.05) * 4)) \<and>
         (parent moon = Some ''earth'' \<and> (30::real) \<noteq> 0 \<and> \<not> truthy_string (parent earth) \<and>
          position_1 earth = position_1 moon \<longrightarrow>
            resolvedPosition planetaryData moon (Num 2) =
            spec_child_position planetaryData moon (Num 2))"
    by (rule C1_child_position [OF h(1) property_planetaryData(1) h(2,3,4,5)])
  from th have a: "resolvedPosition planetaryData moon (Num 2) =
           Some (Num (cos (2 * 0.01) * 30 + cos (2 * 0.05) * 4), Num 0,
                 Num (sin (2 * 0.01) * 30 + sin (2 * 0.05) * 4))"
    by (simp add: g)
  have "(30::real) \<noteq> 0" and "position_1 earth = position_1 moon"
    by (simp_all add: g)
  with th g(1,2) have b: "resolvedPosition planetaryData moon (Num 2) =
            spec_child_position planetaryData moon (Num 2)"
    by blast
  from a b h(1) property_planetaryData(1) show ?thesis
    by blast
qed

text \<open>
  Claim C1 as stated fails: the parameters of the parent are not looked up under the
  name in \<open>parent\<close>. A satellite of Mercury (orbit radius \<open>2\<close>) in the registry
  \<open>probeData\<close> resolves, at time \<open>0\<close>, to \<open>(32, 0, 0)\<close>, Earth's \<open>30\<close> plus \<open>2\<close>, while
  Mercury resolves to \<open>(15, 0, 0)\<close> and the rule of the claim gives \<open>(17, 0, 0)\<close>.
\<close>

theorem C1_counterexample:
  "truthy_string (parent probe) \<and>
   parent probe = Some ''mercury'' \<and>
   property probeData ''mercury'' = Some mercury \<and>
   resolvedPosition probeData mercury (Num 0) = Some (Num 15, Num 0, Num 0) \<and>
   spec_child_position probeData probe (Num 0) = Some (Num 17, Num 0, Num 0) \<and>
   resolvedPosition probeData probe (Num 0) = Some (Num 32, Num 0, Num 0) \<and>
   resolvedPosition probeData probe (Num 0) \<noteq> spec_child_position probeData probe (Num 0)"
proof -
  have m: "resolvedPosition probeData mercury (Num 0) = Some (Num 15, Num 0, Num 0)"
    by (simp add: resolvedPosition_def mesh_position_def Planet_mesh_def mercury_def)
  have p: "resolvedPosition probeData probe (Num 0) = Some (Num 32, Num 0, Num 0)"
    by (simp add: resolvedPosition_def mesh_position_def Planet_mesh_def probe_def
          property_probeData earth_def)
  have s: "spec_child_position probeData probe (Num 0) = Some (Num 17, Num 0, Num 0)"
    by (simp add: spec_child_position_def property_probeData m probe_def Let_def)
  have q: "parent probe = Some ''mercury''"
    by (simp add: probe_def)
  show ?thesis
    by (simp add: m p s q property_probeData)
qed

section \<open>A parent that names no body\<close>

text \<open>
  Claim C2, as amended. Nothing checks the \<open>parent\<close> fields when the system starts:
  the first render succeeds for every registry that has a \<open>moon\<close> entry, whatever the
  \<open>parent\<close> fields name. With an \<open>earth\<close> entry in the registry, the callback of a body
  whose \<open>parent\<close> is set (to the name of a body or not) does not throw and places the body
  around the position computed from the \<open>earth\<close> entry.
\<close>

theorem C2_no_validation:
  assumes "property reg ''moon'' = Some mn" and "property reg ''earth'' = Some e"
    and "truthy_string (parent data)"
  shows "\<not> isl (PlanetarySystem reg) \<and>
         fst (Planet_useFrame reg data t (Some m)) = None \<and>
         map_option position_x (snd (Planet_useFrame reg data t (Some m))) =
           Some (add (mul (Math_cos (mul t (number_of (orbitSpeed e)))) (number_of (orbitRadius e)))
                     (mul (Math_cos (mul t (number_of (orbitSpeed data))))
                        (number_of (orbitRadius data)))) \<and>
         map_option position_z (snd (Planet_useFrame reg data t (Some m))) =
           Some (add (mul (Math_sin (mul t (number_of (orbitSpeed e)))) (number_of (orbitRadius e)))
                     (mul (Math_sin (mul t (number_of (orbitSpeed data))))
                        (number_of (orbitRadius data))))"
  using assms
  by (simp add: PlanetarySystem_def SolarSystemScene_def simulationSettings_def Let_def)

theorem C2_witness:
  "property strayData ''moon'' = Some stray_moon \<and> property strayData ''earth'' = Some earth \<and>
   property strayData ''pluto'' = None \<and> parent stray_moon = Some ''pluto'' \<and>
   \<not> isl (PlanetarySystem strayData) \<and>
   fst (Planet_useFrame strayData stray_moon (Num 0) (Some (Planet_mesh stray_moon))) = None \<and>
   map_option position_x
     (snd (Planet_useFrame strayData stray_moon (Num 0) (Some (Planet_mesh stray_moon)))) =
     Some (Num 34)"
proof -
  have tp: "truthy_string (parent stray_moon)" and p: "parent stray_moon = Some ''pluto''"
    by (simp_all add: stray_moon_def)
  have v: "orbitSpeed earth = Some 0.01" "orbitRadius earth = Some 30"
    "orbitSpeed stray_moon = Some 0.05" "orbitRadius stray_moon = Some 4"
    by (simp_all add: earth_def stray_moon_def moon_def)
  note th = C2_no_validation [OF property_strayData(2) property_strayData(1) tp,
      of "Num 0" "Planet_mesh stray_moon"]
  from th have x: "map_option position_x
     (snd (Planet_useFrame strayData stray_moon (Num 0) (Some (Planet_mesh stray_moon)))) =
     Some (Num 34)"
    by (simp add: v)
  from th x p show ?thesis
    by (simp add: property_strayData)
qed

text \<open>
  Claim C2 as stated fails: in \<open>strayData\<close> the moon's \<open>parent\<close> is \<open>pluto\<close>, which the
  registry does not have; the first render succeeds, the first frame ends without an
  error, and the moon resolves to \<open>(34, 0, 0)\<close>, on its orbit around Earth's position.
\<close>

theorem C2_counterexample:
  "parent stray_moon = Some ''pluto'' \<and>
   property strayData ''moon'' = Some stray_moon \<and>
   property strayData ''pluto'' = None \<and>
   \<not> isl (PlanetarySystem strayData) \<and>
   fst (frame strayData simulationSettings (mount strayData)) = None \<and>
   resolvedPosition strayData stray_moon (Num 0) = Some (Num 34, Num 0, Num 0)"
proof -
  have r: "\<not> isl (PlanetarySystem strayData)"
    by (simp add: PlanetarySystem_def SolarSystemScene_def simulationSettings_def
          property_strayData)
  have f: "fst (frame strayData simulationSettings (mount strayData)) = None"
    by (simp add: frame_def mount_def strayData_def Object_values_def Planet_mesh_def
          sun_def mercury_def venus_def earth_def stray_moon_def moon_def property_def)
  have p: "resolvedPosition strayData stray_moon (Num 0) = Some (Num 34, Num 0, Num 0)"
    by (simp add: resolvedPosition_def mesh_position_def Planet_mesh_def property_strayData
          stray_moon_def moon_def earth_def)
  show ?thesis
    by (simp add: r f p property_strayData) (simp add: stray_moon_def)
qed

section \<open>Guides\<close>

lemma length_OrbitPath_points: "length (OrbitPath_points r) = 65"
  by (simp add: OrbitPath_points_def)

lemma nth_OrbitPath_points:
  assumes "i < 65"
  shows "OrbitPath_points (Some r) ! i =
           (Num (cos (real i / 64 * pi * 2) * r), Num 0, Num (sin (real i / 64 * pi * 2) * r))"
  using assms by (simp add: OrbitPath_points_def Let_def)

lemma OrbitPath_points_closed: "OrbitPath_points (Some r) ! 64 = OrbitPath_points (Some r) ! 0"
  by (simp add: nth_OrbitPath_points)

lemma OrbitPath_points_inj:
  assumes "OrbitPath_points (Some a) = OrbitPath_points (Some b)"
  shows "a = b"
proof -
  from assms have "OrbitPath_points (Some a) ! 0 = OrbitPath_points (Some b) ! 0"
    by simp
  then show ?thesis
    by (simp add: nth_OrbitPath_points)
qed

lemma guides_scene:
  assumes "truthy (s ''showOrbits'')" and "property reg ''moon'' = Some mn"
  shows "map_sum id guides (SolarSystemScene reg s t) =
           Inr (map (\<lambda>d. OrbitPath_points (orbitRadius d))
                  (filter (\<lambda>d. truthy_number (orbitRadius d) \<and> \<not> truthy_string (parent d))
                     (Object_values reg))
                @ [OrbitPath_points (orbitRadius mn)])"
  using assms
  by (simp add: SolarSystemScene_def guides_def OrbitPath_def List.map_filter_def comp_def)

text \<open>
  Claim C3, as amended. Let \<open>showOrbits\<close> be on. If the registry has a \<open>moon\<close> entry,
  the scene shows one guide for every body with a non-zero \<open>orbitRadius\<close> and no
  parent (the field absent or empty), in the order of the registry, and after them
  exactly one more, made from the \<open>orbitRadius\<close> of the \<open>moon\<close> entry: no other body
  with a parent gets one, and a body whose \<open>orbitRadius\<close> is \<open>0\<close> gets none. If the
  registry has no \<open>moon\<close> entry, the render throws a TypeError and there is no guide
  at all. A guide of radius \<open>r\<close> has 65 points, hence 64 segments; its point \<open>i\<close> is
  \<open>(cos a * r, 0, sin a * r)\<close> at the angle \<open>a = i / 64 * 2 pi\<close>, on the circle of
  radius \<open>r\<close> about the origin in the horizontal plane; its last point is its first.
\<close>

theorem C3_guides:
  assumes "truthy (s ''showOrbits'')"
  shows "(property reg ''moon'' = Some mn \<longrightarrow>
            map_sum id guides (SolarSystemScene reg s t) =
              Inr (map (\<lambda>d. OrbitPath_points (orbitRadius d))
                     (filter (\<lambda>d. truthy_number (orbitRadius d) \<and> \<not> truthy_string (parent d))
                        (Object_values reg))
                   @ [OrbitPath_points (orbitRadius mn)])) \<and>
         (property reg ''moon'' = None \<longrightarrow> SolarSystemScene reg s t = Inl TypeError) \<and>
         length (OrbitPath_points (Some r)) = 65 \<and>
         (\<forall>i<65. OrbitPath_points (Some r) ! i =
            (Num (cos (real i / 64 * pi * 2) * r), Num 0, Num (sin (real i / 64 * pi * 2) * r))) \<and>
         OrbitPath_points (Some r) ! 64 = OrbitPath_points (Some r) ! 0"
proof -
  have pts: "\<forall>i<65. OrbitPath_points (Some r) ! i =
            (Num (cos (real i / 64 * pi * 2) * r), Num 0, Num (sin (real i / 64 * pi * 2) * r))"
    using nth_OrbitPath_points by blast
  have some: "map_sum id guides (SolarSystemScene reg s t) =
              Inr (map (\<lambda>d. OrbitPath_points (orbitRadius d))
                     (filter (\<lambda>d. truthy_number (orbitRadius d) \<and> \<not> truthy_string (parent d))
                        (Object_values reg))
                   @ [OrbitPath_points (orbitRadius mn)])"
    if "property reg ''moon'' = Some mn"
    by (rule guides_scene [where s = s and reg = reg and mn = mn and t = t, OF assms that])
  have none: "SolarSystemScene reg s t = Inl TypeError" if "property reg ''moon'' = None"
    using assms that by (simp add: SolarSystemScene_def)
  from pts some none length_OrbitPath_points [of "Some r"] OrbitPath_points_closed [of r]
  show ?thesis
    by blast
qed

theorem C3_witness:
  "truthy (simulationSettings ''showOrbits'') \<and>
   property planetaryData ''moon'' = Some moon \<and>
   map_sum id guides (SolarSystemScene planetaryData simulationSettings (Num 0)) =
     Inr [OrbitPath_points (Some 15), OrbitPath_points (Some 22), OrbitPath_points (Some 30),
          OrbitPath_points (Some 4)] \<and>
   property planetsOnly ''moon'' = None \<and>
   SolarSystemScene planetsOnly simulationSettings (Num 0) = Inl TypeError \<and>
   length (OrbitPath_points (Some 15)) = 65 \<and>
   OrbitPath_points (Some 15) ! 16 = (Num 0, Num 0, Num 15) \<and>
   OrbitPath_points (Some 15) ! 64 = OrbitPath_points (Some 15) ! 0"
proof -
  have so: "truthy (simulationSettings ''showOrbits'')"
    by (simp add: simulationSettings_def)
  have mn: "property planetaryData ''moon'' = Some moon"
    by (simp add: property_def planetaryData_def)
  have no: "property planetsOnly ''moon'' = None"
    by (simp add: property_def planetsOnly_def)
  have vals: "filter (\<lambda>d. truthy_number (orbitRadius d) \<and> \<not> truthy_string (parent d))
                (Object_values planetaryData) = [mercury, venus, earth]"
    by (simp add: Object_values_def planetaryData_def sun_def mercury_def
          venus_def earth_def moon_def)
  have r: "orbitRadius mercury = Some 15" "orbitRadius venus = Some 22"
    "orbitRadius earth = Some 30" "orbitRadius moon = Some 4"
    by (simp_all add: mercury_def venus_def earth_def moon_def)
  note th = C3_guides [where s = simulationSettings and reg = planetaryData and mn = moon
      and t = "Num 0" and r = 15, OF so]
  note th' = C3_guides [where s = simulationSettings and reg = planetsOnly
      and t = "Num 0" and r = 15, OF so]
  from th mn have g: "map_sum id guides (SolarSystemScene planetaryData simulationSettings (Num 0)) =
     Inr [OrbitPath_points (Some 15), OrbitPath_points (Some 22), OrbitPath_points (Some 30),
          OrbitPath_points (Some 4)]"
    by (simp add: vals r)
  from th' no have e: "SolarSystemScene planetsOnly simulationSettings (Num 0) = Inl TypeError"
    by blast
  from th have q: "OrbitPath_points (Some 15) ! 16 =
      (Num (cos (real 16 / 64 * pi * 2) * 15), Num 0, Num (sin (real 16 / 64 * pi * 2) * 15))"
    by simp
  have "real 16 / 64 * pi * 2 = pi / 2"
    by simp
  with q have q': "OrbitPath_points (Some 15) ! 16 = (Num 0, Num 0, Num 15)"
    by simp
  from th have l: "length (OrbitPath_points (Some 15)) = 65"
    and c: "OrbitPath_points (Some 15) ! 64 = OrbitPath_points (Some 15) ! 0"
    by blast+
  from so mn g no e l q' c show ?thesis
    by blast
qed

text \<open>
  Claim C3 as stated fails: not every body with a parent gets a guide. In \<open>probeData\<close>
  the satellite of Mercury has a parent and the orbit radius \<open>2\<close>; with \<open>showOrbits\<close> on,
  the scene shows the guides of radius 15, 22, 30 and 4 and none of radius 2.
\<close>

theorem C3_counterexample:
  "truthy (simulationSettings ''showOrbits'') \<and>
   property probeData ''probe'' = Some probe \<and>
   truthy_string (parent probe) \<and> orbitRadius probe = Some 2 \<and>
   map_sum id guides (SolarSystemScene probeData simulationSettings (Num 0)) =
     Inr [OrbitPath_points (Some 15), OrbitPath_points (Some 22), OrbitPath_points (Some 30),
          OrbitPath_points (Some 4)] \<and>
   OrbitPath_points (Some 2) \<notin>
     set [OrbitPath_points (Some 15), OrbitPath_points (Some 22), OrbitPath_points (Some 30),
          OrbitPath_points (Some 4)]"
proof -
  have so: "truthy (simulationSettings ''showOrbits'')"
    by (simp add: simulationSettings_def)
  have vals: "filter (\<lambda>d. truthy_number (orbitRadius d) \<and> \<not> truthy_string (parent d))
                (Object_values probeData) = [mercury, venus, earth]"
    by (simp add: Object_values_def probeData_def planetaryData_def sun_def mercury_def
          venus_def earth_def moon_def probe_def)
  have g: "map_sum id guides (SolarSystemScene probeData simulationSettings (Num 0)) =
     Inr [OrbitPath_points (Some 15), OrbitPath_points (Some 22), OrbitPath_points (Some 30),
          OrbitPath_points (Some 4)]"
    by (simp add: guides_scene [where s = simulationSettings, OF so property_probeData(3)] vals)
      (simp add: mercury_def venus_def earth_def moon_def)
  have p: "truthy_string (parent probe)" "orbitRadius probe = Some 2"
    by (simp_all add: probe_def)
  have n: "OrbitPath_points (Some 2) \<noteq> OrbitPath_points (Some b)" if "b \<noteq> 2" for b
    using that OrbitPath_points_inj [of 2 b] by blast
  show ?thesis
    by (simp add: so g p property_probeData n)
qed

text \<open>
  In the shipped registry the guide made for the moon is the circle of radius \<open>4\<close>
  about the origin, while Earth, the moon's parent, is at \<open>(30, 0, 0)\<close> at time \<open>0\<close>.
\<close>

lemma moon_guide_shipped:
  "map_sum id (\<lambda>sc. last (guides sc)) (SolarSystemScene planetaryData simulationSettings (Num 0)) =
     Inr (OrbitPath_points (Some 4)) \<and>
   OrbitPath_points (Some 4) ! 0 = (Num 4, Num 0, Num 0) \<and>
   resolvedPosition planetaryData earth (Num 0) = Some (Num 30, Num 0, Num 0)"
proof -
  have so: "truthy (simulationSettings ''showOrbits'')"
    by (simp add: simulationSettings_def)
  have "map_sum id guides (SolarSystemScene planetaryData simulationSettings (Num 0)) =
           Inr (map (\<lambda>d. OrbitPath_points (orbitRadius d))
                  (filter (\<lambda>d. truthy_number (orbitRadius d) \<and> \<not> truthy_string (parent d))
                     (Object_values planetaryData))
                @ [OrbitPath_points (orbitRadius moon)])"
    by (rule guides_scene [where s = simulationSettings, OF so property_planetaryData(2)])
  then have "map_sum id (\<lambda>sc. last (guides sc))
               (SolarSystemScene planetaryData simulationSettings (Num 0)) =
             Inr (OrbitPath_points (orbitRadius moon))"
    by (cases "SolarSystemScene planetaryData simulationSettings (Num 0)") simp_all
  moreover have "orbitRadius moon = Some 4"
    by (simp add: moon_def)
  moreover have "resolvedPosition planetaryData earth (Num 0) = Some (Num 30, Num 0, Num 0)"
    by (simp add: resolvedPosition_def mesh_position_def Planet_mesh_def earth_def)
  ultimately show ?thesis
    by (simp add: nth_OrbitPath_points)
qed

text \<open>
  Claim C9. After \<open>handleSettingChange('showOrbits', false)\<close> a render of the scene
  succeeds and shows no guide line, whatever the registry, the other settings and the
  time.
\<close>

theorem C9_no_guides:
  "map_sum id guides
     (SolarSystemScene reg (handleSettingChange ''showOrbits'' (JBoolean False) s) t) = Inr []"
  by (simp add: SolarSystemScene_def handleSettingChange_def guides_def OrbitPath_def
        List.map_filter_def comp_def)

section \<open>What a frame leaves untouched\<close>

lemma Planet_useFrame_untouched:
  "map_option position_y (snd (Planet_useFrame reg data t cur)) = map_option position_y cur"
  "map_option rotation_x (snd (Planet_useFrame reg data t cur)) = map_option rotation_x cur"
  "map_option rotation_z (snd (Planet_useFrame reg data t cur)) = map_option rotation_z cur"
  by (cases cur; simp add: Let_def split: option.split)+

lemma Planets_useFrame_position_y:
  "map (map_option position_y) (snd (Planets_useFrame reg t ds ms)) =
   map (map_option position_y) ms"
proof (induction reg t ds ms rule: Planets_useFrame.induct)
  case (1 reg t data ds m ms)
  obtain r m' where pf: "Planet_useFrame reg data t m = (r, m')"
    by (cases "Planet_useFrame reg data t m")
  have y: "map_option position_y m' = map_option position_y m"
    using Planet_useFrame_untouched(1) [of reg data t m] pf by simp
  show ?case
  proof (cases r)
    case None
    with 1 pf have "map (map_option position_y) (snd (Planets_useFrame reg t ds ms)) =
        map (map_option position_y) ms"
      by simp
    with None pf y show ?thesis
      by (cases "Planets_useFrame reg t ds ms") simp
  next
    case (Some e)
    with pf y show ?thesis by simp
  qed
qed simp_all

lemma frame_position_y:
  "map (map_option position_y) (meshes (snd (frame reg s st))) =
   map (map_option position_y) (meshes st)"
  using Planets_useFrame_position_y [of reg "time st" "Object_values reg" "meshes st"]
  by (cases "Planets_useFrame reg (time st) (Object_values reg) (meshes st)")
    (simp add: frame_def split: option.split)

lemma frames_position_y:
  "map (map_option position_y) (meshes (frames reg ss st)) =
   map (map_option position_y) (meshes st)"
  by (induction ss arbitrary: st) (simp_all add: frame_position_y)

text \<open>
  Claim C10. The callback of a body leaves the height \<open>position.y\<close> of its mesh and
  the rotations about the two horizontal axes as they were: it writes \<open>position.x\<close>,
  \<open>position.z\<close> and \<open>rotation.y\<close> only. So after any run of frames, under any
  settings, the height of every mesh is that of the body's base position.
\<close>

theorem C10_y_never_written:
  "map_option position_y (snd (Planet_useFrame reg data t cur)) = map_option position_y cur \<and>
   map_option rotation_x (snd (Planet_useFrame reg data t cur)) = map_option rotation_x cur \<and>
   map_option rotation_z (snd (Planet_useFrame reg data t cur)) = map_option rotation_z cur \<and>
   map (map_option position_y) (meshes (frames reg ss (mount reg))) =
     map (\<lambda>data. Some (Num (position_1 data))) (Object_values reg)"
proof -
  have "map (map_option position_y) (meshes (mount reg)) =
        map (\<lambda>data. Some (Num (position_1 data))) (Object_values reg)"
    by (simp add: mount_def Planet_mesh_def position_1_def split: prod.split)
  then show ?thesis
    by (simp add: Planet_useFrame_untouched frames_position_y)
qed

section \<open>Frames in which no callback throws\<close>

text \<open>
  The only error of a callback is the read of \<open>planetaryData.earth\<close> for a body with a
  parent. When every body with a parent finds an \<open>earth\<close> entry, a frame calls every
  callback once, on the mesh of its body, and then advances the clock.
\<close>

lemma Planet_useFrame_no_throw:
  assumes "truthy_string (parent data) \<longrightarrow> property reg ''earth'' \<noteq> None"
  shows "fst (Planet_useFrame reg data t cur) = None"
  using assms by (cases cur) (auto simp: Let_def)

lemma Planets_useFrame_no_throw:
  assumes "length ds = length ms"
    and "\<forall>data\<in>set ds. truthy_string (parent data) \<longrightarrow> property reg ''earth'' \<noteq> None"
  shows "Planets_useFrame reg t ds ms =
           (None, map2 (\<lambda>data m. snd (Planet_useFrame reg data t m)) ds ms)"
  using assms
proof (induction ds ms rule: list_induct2)
  case Nil
  show ?case by simp
next
  case (Cons data ds m ms)
  from Cons.prems have "truthy_string (parent data) \<longrightarrow> property reg ''earth'' \<noteq> None"
    by simp
  then have "fst (Planet_useFrame reg data t m) = None"
    by (rule Planet_useFrame_no_throw)
  then obtain m' where "Planet_useFrame reg data t m = (None, m')"
    by (cases "Planet_useFrame reg data t m") simp
  moreover from Cons.prems Cons.IH
  have "Planets_useFrame reg t ds ms =
           (None, map2 (\<lambda>data m. snd (Planet_useFrame reg data t m)) ds ms)"
    by simp
  ultimately show ?case by simp
qed

lemma frame_no_throw:
  assumes "\<forall>data\<in>set (Object_values reg).
             truthy_string (parent data) \<longrightarrow> property reg ''earth'' \<noteq> None"
    and "length (meshes st) = length (Object_values reg)"
  shows "frame reg s st =
           (None, \<lparr> time = SolarSystemScene_useFrame s (time st),
                    meshes = map2 (\<lambda>data m. snd (Planet_useFrame reg data (time st) m))
                               (Object_values reg) (meshes st) \<rparr>)"
  using Planets_useFrame_no_throw [of "Object_values reg" "meshes st" reg "time st"] assms
  by (simp add: frame_def)

lemma length_Planets_useFrame:
  "length (snd (Planets_useFrame reg t ds ms)) = length ms"
proof (induction reg t ds ms rule: Planets_useFrame.induct)
  case (1 reg t data ds m ms)
  then show ?case
    by (cases "Planet_useFrame reg data t m"; cases "fst (Planet_useFrame reg data t m)";
        cases "Planets_useFrame reg t ds ms") simp_all
qed simp_all

lemma length_frame: "length (meshes (snd (frame reg s st))) = length (meshes st)"
  using length_Planets_useFrame [of reg "time st" "Object_values reg" "meshes st"]
  by (cases "Planets_useFrame reg (time st) (Object_values reg) (meshes st)")
    (simp add: frame_def split: option.split)

lemma length_frames: "length (meshes (frames reg ss st)) = length (meshes st)"
  by (induction ss arbitrary: st) (simp_all add: length_frame)

lemma length_mount: "length (meshes (mount reg)) = length (Object_values reg)"
  by (simp add: mount_def)

lemma frames_append: "frames reg (xs @ ys) st = frames reg ys (frames reg xs st)"
  by (induction xs arbitrary: st) simp_all

lemma frames_snoc: "frames reg (ss @ [s]) st = snd (frame reg s (frames reg ss st))"
  by (simp add: frames_append)

section \<open>The clock stopped\<close>

lemma clock_stopped:
  assumes "s ''timeSpeed'' = Some (JNumber (Num 0))"
  shows "SolarSystemScene_useFrame s t = t"
  using assms by (cases t) (simp_all add: SolarSystemScene_useFrame_def)

text \<open>One mesh under repeated calls of its callback at one time.\<close>

lemma spin_step:
  "map_option rotation_y (snd (Planet_useFrame reg data t cur)) =
   map_option (\<lambda>a. a + rotationSpeed data) (map_option rotation_y cur)"
  by (cases cur) (simp_all add: Let_def split: option.split)

lemma position_step_idem:
  "map_option mesh_position
     (snd (Planet_useFrame reg data t (snd (Planet_useFrame reg data t cur)))) =
   map_option mesh_position (snd (Planet_useFrame reg data t cur))"
  by (cases cur) (simp_all add: Let_def mesh_position_def split: option.split)

lemma spin_funpow:
  "map_option rotation_y (((\<lambda>m. snd (Planet_useFrame reg data t m)) ^^ n) cur) =
   map_option (\<lambda>a. a + real n * rotationSpeed data) (map_option rotation_y cur)"
proof (induction n)
  case 0
  show ?case by (simp add: option.map_ident)
next
  case (Suc n)
  show ?case
    by (simp add: spin_step Suc.IH option.map_comp comp_def algebra_simps
          del: Planet_useFrame.simps)
qed

lemma position_funpow:
  "map_option mesh_position (((\<lambda>m. snd (Planet_useFrame reg data t m)) ^^ Suc n) cur) =
   map_option mesh_position (snd (Planet_useFrame reg data t cur))"
proof (induction n arbitrary: cur)
  case 0
  show ?case by simp
next
  case (Suc n)
  have "((\<lambda>m. snd (Planet_useFrame reg data t m)) ^^ Suc (Suc n)) cur =
        ((\<lambda>m. snd (Planet_useFrame reg data t m)) ^^ Suc n) (snd (Planet_useFrame reg data t cur))"
    by (simp only: funpow_Suc_right comp_def)
  then show ?case
    by (simp only: Suc.IH position_step_idem)
qed

lemma callback_funpow_swap:
  "((\<lambda>m. snd (Planet_useFrame reg data t m)) ^^ n) (snd (Planet_useFrame reg data t cur)) =
   snd (Planet_useFrame reg data t (((\<lambda>m. snd (Planet_useFrame reg data t m)) ^^ n) cur))"
  using funpow_swap1 [of "\<lambda>m. snd (Planet_useFrame reg data t m)" n cur]
  by (simp del: Planet_useFrame.simps)

text \<open>A run of frames under one settings object with the clock stopped.\<close>

lemma frames_stopped:
  assumes "\<forall>data\<in>set (Object_values reg).
             truthy_string (parent data) \<longrightarrow> property reg ''earth'' \<noteq> None"
    and "s ''timeSpeed'' = Some (JNumber (Num 0))"
    and "length (meshes st) = length (Object_values reg)"
  shows "time (frames reg (replicate n s) st) = time st \<and>
         meshes (frames reg (replicate n s) st) =
           map2 (\<lambda>data m. ((\<lambda>m. snd (Planet_useFrame reg data (time st) m)) ^^ n) m)
             (Object_values reg) (meshes st)"
  using assms(3)
proof (induction n arbitrary: st)
  case 0
  then show ?case
    by (simp add: list_eq_iff_nth_eq)
next
  case (Suc n)
  let ?st' = "snd (frame reg s st)"
  have f: "?st' = \<lparr> time = time st,
                    meshes = map2 (\<lambda>data m. snd (Planet_useFrame reg data (time st) m))
                               (Object_values reg) (meshes st) \<rparr>"
    by (simp add: frame_no_throw [OF assms(1) Suc.prems]
          clock_stopped [where s = s, OF assms(2)])
  have len: "length (meshes ?st') = length (Object_values reg)"
    by (simp add: length_frame Suc.prems)
  have t: "time ?st' = time st"
    by (simp add: f)
  have "map2 (\<lambda>data m. ((\<lambda>m. snd (Planet_useFrame reg data (time st) m)) ^^ n) m)
          (Object_values reg) (meshes ?st') =
        map2 (\<lambda>data m. ((\<lambda>m. snd (Planet_useFrame reg data (time st) m)) ^^ Suc n) m)
          (Object_values reg) (meshes st)"
    using Suc.prems
    by (subst f) (simp add: list_eq_iff_nth_eq callback_funpow_swap del: Planet_useFrame.simps)
  with Suc.IH [OF len] t show ?case
    by simp
qed

text \<open>The first frame of a session with the shipped registry and settings.\<close>

lemma first_frame_shipped:
  "frames planetaryData [simulationSettings] (mount planetaryData) =
     \<lparr> time = Num 0.01,
       meshes = map2 (\<lambda>data m. snd (Planet_useFrame planetaryData data (Num 0) m))
                  (Object_values planetaryData) (meshes (mount planetaryData)) \<rparr>"
proof -
  have safe: "\<forall>data\<in>set (Object_values planetaryData).
             truthy_string (parent data) \<longrightarrow> property planetaryData ''earth'' \<noteq> None"
    by (simp add: property_planetaryData)
  have t: "SolarSystemScene_useFrame simulationSettings (Num 0) = Num 0.01"
    by (simp add: SolarSystemScene_useFrame_def simulationSettings_def)
  have t0: "time (mount planetaryData) = Num 0"
    by (simp add: mount_def)
  have "frames planetaryData [simulationSettings] (mount planetaryData) =
        snd (frame planetaryData simulationSettings (mount planetaryData))"
    by simp
  also have "\<dots> = \<lparr> time = SolarSystemScene_useFrame simulationSettings (Num 0),
       meshes = map2 (\<lambda>data m. snd (Planet_useFrame planetaryData data (Num 0) m))
                  (Object_values planetaryData) (meshes (mount planetaryData)) \<rparr>"
    by (simp only: frame_no_throw [OF safe length_mount] t0 snd_conv)
  finally show ?thesis
    by (simp only: t)
qed

text \<open>
  Claim C4, as amended. Let \<open>timeSpeed\<close> be set to \<open>0\<close>, in a state with one mesh per
  body and a registry in which no callback throws. Then across any number \<open>n\<close> of
  frames the time of the scene stays what it was; the spin of every mesh has advanced
  by \<open>n\<close> times the body's \<open>rotationSpeed\<close>; and the positions of the meshes after
  \<open>n + 1\<close> frames are those after the first of these frames. That first frame may
  still move the bodies: its callbacks run with the time of the last render.
\<close>

theorem C4_frozen_orbits:
  assumes "\<forall>data\<in>set (Object_values reg).
             truthy_string (parent data) \<longrightarrow> property reg ''earth'' \<noteq> None"
    and "length (meshes st) = length (Object_values reg)"
  shows "time (frames reg (replicate n (handleSettingChange ''timeSpeed'' (JNumber (Num 0)) s)) st)
           = time st \<and>
         positions (frames reg (replicate (Suc n)
             (handleSettingChange ''timeSpeed'' (JNumber (Num 0)) s)) st) =
           positions (frames reg [handleSettingChange ''timeSpeed'' (JNumber (Num 0)) s] st) \<and>
         spins (frames reg (replicate n (handleSettingChange ''timeSpeed'' (JNumber (Num 0)) s)) st) =
           map2 (\<lambda>data r. map_option (\<lambda>a. a + real n * rotationSpeed data) r)
             (Object_values reg) (spins st)"
proof -
  let ?s = "handleSettingChange ''timeSpeed'' (JNumber (Num 0)) s"
  have z: "?s ''timeSpeed'' = Some (JNumber (Num 0))"
    by (simp add: handleSettingChange_def)
  note run = frames_stopped [where s = ?s, OF assms(1) z assms(2)]
  have one: "[?s] = replicate (Suc 0) ?s"
    by simp
  have p: "positions (frames reg (replicate (Suc n) ?s) st) = positions (frames reg [?s] st)"
    unfolding one positions_def
    using assms(2)
    by (simp only: run [of "Suc n"] run [of "Suc 0"])
      (simp add: list_eq_iff_nth_eq position_funpow del: Planet_useFrame.simps funpow.simps)
  have r: "spins (frames reg (replicate n ?s) st) =
           map2 (\<lambda>data r. map_option (\<lambda>a. a + real n * rotationSpeed data) r)
             (Object_values reg) (spins st)"
    unfolding spins_def
    using assms(2)
    by (simp only: run [of n])
      (simp add: list_eq_iff_nth_eq spin_funpow del: Planet_useFrame.simps)
  from run [of n] p r show ?thesis
    by simp
qed

theorem C4_witness:
  "length (meshes (frames planetaryData [simulationSettings] (mount planetaryData))) =
     length (Object_values planetaryData) \<and>
   time (frames planetaryData
           (replicate 3 (handleSettingChange ''timeSpeed'' (JNumber (Num 0)) simulationSettings))
           (frames planetaryData [simulationSettings] (mount planetaryData))) = Num 0.01 \<and>
   positions (frames planetaryData
           (replicate (Suc 3) (handleSettingChange ''timeSpeed'' (JNumber (Num 0)) simulationSettings))
           (frames planetaryData [simulationSettings] (mount planetaryData))) =
     positions (frames planetaryData
           [handleSettingChange ''timeSpeed'' (JNumber (Num 0)) simulationSettings]
           (frames planetaryData [simulationSettings] (mount planetaryData))) \<and>
   spins (frames planetaryData
           (replicate 3 (handleSettingChange ''timeSpeed'' (JNumber (Num 0)) simulationSettings))
           (frames planetaryData [simulationSettings] (mount planetaryData))) =
     [Some 0.004, Some 0.02, Some (- 0.008), Some 0.04, Some 0.2]"
proof -
  define st1 where "st1 = frames planetaryData [simulationSettings] (mount planetaryData)"
  have safe: "\<forall>data\<in>set (Object_values planetaryData).
             truthy_string (parent data) \<longrightarrow> property planetaryData ''earth'' \<noteq> None"
    by (simp add: property_planetaryData)
  have len: "length (meshes st1) = length (Object_values planetaryData)"
    unfolding st1_def by (simp only: length_frames length_mount)
  have t1: "time st1 = Num 0.01"
    unfolding st1_def by (simp only: first_frame_shipped) simp
  have sp1: "spins st1 = [Some 0.001, Some 0.005, Some (- 0.002), Some 0.01, Some 0.05]"
    unfolding st1_def
    by (simp only: first_frame_shipped)
      (simp add: spins_def mount_def Object_values_def planetaryData_def Planet_mesh_def
          sun_def mercury_def venus_def earth_def moon_def property_def)
  have sp: "map2 (\<lambda>data r. map_option (\<lambda>a. a + real 3 * rotationSpeed data) r)
             (Object_values planetaryData) (spins st1) =
            [Some 0.004, Some 0.02, Some (- 0.008), Some 0.04, Some 0.2]"
    by (simp add: sp1 Object_values_def planetaryData_def
          sun_def mercury_def venus_def earth_def moon_def)
  note th = C4_frozen_orbits [OF safe len, of 3 simulationSettings]
  from th have "length (meshes st1) = length (Object_values planetaryData) \<and>
   time (frames planetaryData
           (replicate 3 (handleSettingChange ''timeSpeed'' (JNumber (Num 0)) simulationSettings))
           st1) = Num 0.01 \<and>
   positions (frames planetaryData
           (replicate (Suc 3) (handleSettingChange ''timeSpeed'' (JNumber (Num 0)) simulationSettings))
           st1) =
     positions (frames planetaryData
           [handleSettingChange ''timeSpeed'' (JNumber (Num 0)) simulationSettings] st1) \<and>
   spins (frames planetaryData
           (replicate 3 (handleSettingChange ''timeSpeed'' (JNumber (Num 0)) simulationSettings))
           st1) =
     [Some 0.004, Some 0.02, Some (- 0.008), Some 0.04, Some 0.2]"
    by (simp only: len t1 sp)
  then show ?thesis
    unfolding st1_def .
qed

text \<open>
  Claim C4 as stated fails: in the session of the shipped registry, after one frame at
  the speed \<open>1\<close> the time is \<open>0.01\<close> while the meshes are where time \<open>0\<close> puts them;
  with \<open>timeSpeed\<close> then set to \<open>0\<close>, the next frame moves them (Mercury from
  \<open>z = 0\<close> to \<open>z = sin (0.01 * 0.02) * 15\<close>).
\<close>

theorem C4_counterexample:
  "positions (frames planetaryData
                [handleSettingChange ''timeSpeed'' (JNumber (Num 0)) simulationSettings]
                (frames planetaryData [simulationSettings] (mount planetaryData))) \<noteq>
   positions (frames planetaryData [simulationSettings] (mount planetaryData))"
proof -
  define st1 where "st1 = frames planetaryData [simulationSettings] (mount planetaryData)"
  define s0 where "s0 = handleSettingChange ''timeSpeed'' (JNumber (Num 0)) simulationSettings"
  have safe: "\<forall>data\<in>set (Object_values planetaryData).
             truthy_string (parent data) \<longrightarrow> property planetaryData ''earth'' \<noteq> None"
    by (simp add: property_planetaryData)
  have len: "length (meshes st1) = length (Object_values planetaryData)"
    unfolding st1_def by (simp only: length_frames length_mount)
  have ov: "Object_values planetaryData ! Suc 0 = mercury" "Suc 0 < length (Object_values planetaryData)"
    by (simp_all add: Object_values_def planetaryData_def)
  have mm: "meshes (mount planetaryData) ! Suc 0 = Some (Planet_mesh mercury)"
    by (simp add: mount_def Object_values_def planetaryData_def)
  have st1: "st1 = \<lparr> time = Num 0.01,
       meshes = map2 (\<lambda>data m. snd (Planet_useFrame planetaryData data (Num 0) m))
                  (Object_values planetaryData) (meshes (mount planetaryData)) \<rparr>"
    unfolding st1_def by (rule first_frame_shipped)
  have t1: "time st1 = Num 0.01"
    by (simp add: st1)
  have m1: "meshes st1 ! Suc 0 =
              snd (Planet_useFrame planetaryData mercury (Num 0) (Some (Planet_mesh mercury)))"
    using ov mm by (simp add: st1 length_mount del: Planet_useFrame.simps)
  have before: "positions st1 ! Suc 0 = Some (Num 15, Num 0, Num 0)"
    using ov len
    by (simp add: positions_def m1 del: Planet_useFrame.simps)
      (simp add: mesh_position_def Planet_mesh_def mercury_def)
  have "frames planetaryData [s0] st1 = snd (frame planetaryData s0 st1)"
    by simp
  then have m2: "meshes (frames planetaryData [s0] st1) ! Suc 0 =
      snd (Planet_useFrame planetaryData mercury (Num 0.01) (meshes st1 ! Suc 0))"
    using ov len
    by (simp add: frame_no_throw [OF safe len] t1 del: Planet_useFrame.simps frames.simps)
  have len2: "length (meshes (frames planetaryData [s0] st1)) = length (Object_values planetaryData)"
    by (simp only: length_frames len)
  have after: "positions (frames planetaryData [s0] st1) ! Suc 0 =
      Some (Num (cos (0.01 * 0.02) * 15), Num 0, Num (sin (0.01 * 0.02) * 15))"
    using ov len2
    by (simp add: positions_def m2 m1 del: Planet_useFrame.simps frames.simps)
      (simp add: mesh_position_def Planet_mesh_def mercury_def)
  have "0 < sin (0.01 * 0.02 :: real)"
  proof (rule sin_gt_zero)
    show "0 < (0.01 * 0.02 :: real)" by simp
    have "(0.01 * 0.02 :: real) < 2" by simp
    also have "\<dots> \<le> pi" by (rule pi_ge_two)
    finally show "(0.01 * 0.02 :: real) < pi" .
  qed
  then have "sin (0.01 * 0.02 :: real) * 15 \<noteq> 0"
    by simp
  with before after have "positions (frames planetaryData [s0] st1) ! Suc 0 \<noteq> positions st1 ! Suc 0"
    by simp
  then have "positions (frames planetaryData [s0] st1) \<noteq> positions st1"
    by metis
  then show ?thesis
    unfolding st1_def s0_def .
qed

section \<open>The clock\<close>

lemma clock_advance:
  assumes "s ''timeSpeed'' = Some (JNumber (Num v))"
  shows "SolarSystemScene_useFrame s (Num a) = Num (a + v * 0.01)"
  using assms by (simp add: SolarSystemScene_useFrame_def)

lemma frame_time_cases:
  "time (snd (frame reg s st)) = time st \<or>
   time (snd (frame reg s st)) = SolarSystemScene_useFrame s (time st)"
  by (cases "Planets_useFrame reg (time st) (Object_values reg) (meshes st)")
    (simp add: frame_def split: option.split)

lemma frames_time_mono:
  assumes "\<forall>s\<in>set ss. \<exists>v. 0 \<le> v \<and> s ''timeSpeed'' = Some (JNumber (Num v))"
    and "time st = Num a"
  shows "\<exists>b. time (frames reg ss st) = Num b \<and> a \<le> b"
  using assms
proof (induction ss arbitrary: st a)
  case Nil
  then show ?case by simp
next
  case (Cons s ss)
  from Cons.prems(1) obtain v where v: "0 \<le> v" "s ''timeSpeed'' = Some (JNumber (Num v))"
    by auto
  have "SolarSystemScene_useFrame s (Num a) = Num (a + v * 0.01)"
    by (rule clock_advance [where s = s, OF v(2)])
  with frame_time_cases [of reg s st] Cons.prems(2)
  obtain a' where a': "time (snd (frame reg s st)) = Num a'" "a \<le> a'"
    using v(1) by auto
  from Cons.prems(1) have "\<forall>s\<in>set ss. \<exists>v. 0 \<le> v \<and> s ''timeSpeed'' = Some (JNumber (Num v))"
    by simp
  from Cons.IH [OF this a'(1)] a'(2) show ?case
    by auto
qed

text \<open>
  Claim C8. The time of the scene starts at \<open>0\<close>. In a session of frames with the
  settings \<open>ss\<close> (one settings object per frame) in which no callback throws, frame
  \<open>n\<close> advances it once, by \<open>timeSpeed * 0.01\<close> with the \<open>timeSpeed\<close> of that frame. When
  every \<open>timeSpeed\<close> is a number that is not negative, the time is a number after
  every frame and never decreases from one frame to a later one.
\<close>

theorem C8_clock:
  "time (mount reg) = Num 0 \<and>
   ((\<forall>data\<in>set (Object_values reg).
       truthy_string (parent data) \<longrightarrow> property reg ''earth'' \<noteq> None) \<longrightarrow>
      (\<forall>n<length ss.
         time (frames reg (take (Suc n) ss) (mount reg)) =
           add (time (frames reg (take n ss) (mount reg)))
               (mul (to_number ((ss ! n) ''timeSpeed'')) (Num 0.01)))) \<and>
   ((\<forall>s\<in>set ss. \<exists>v. 0 \<le> v \<and> s ''timeSpeed'' = Some (JNumber (Num v))) \<longrightarrow>
      (\<forall>m n. m \<le> n \<longrightarrow> n \<le> length ss \<longrightarrow>
         (\<exists>a b. time (frames reg (take m ss) (mount reg)) = Num a \<and>
                time (frames reg (take n ss) (mount reg)) = Num b \<and> a \<le> b)))"
proof (intro conjI impI allI)
  show "time (mount reg) = Num 0"
    by (simp add: mount_def)
next
  fix n
  assume safe: "\<forall>data\<in>set (Object_values reg).
       truthy_string (parent data) \<longrightarrow> property reg ''earth'' \<noteq> None"
    and n: "n < length ss"
  have len: "length (meshes (frames reg (take n ss) (mount reg))) = length (Object_values reg)"
    by (simp add: length_frames length_mount)
  have "frames reg (take (Suc n) ss) (mount reg) =
        snd (frame reg (ss ! n) (frames reg (take n ss) (mount reg)))"
    using n by (simp add: take_Suc_conv_app_nth frames_snoc)
  then show "time (frames reg (take (Suc n) ss) (mount reg)) =
           add (time (frames reg (take n ss) (mount reg)))
               (mul (to_number ((ss ! n) ''timeSpeed'')) (Num 0.01))"
    by (simp add: frame_no_throw [OF safe len] SolarSystemScene_useFrame_def)
next
  fix m n
  assume speeds: "\<forall>s\<in>set ss. \<exists>v. 0 \<le> v \<and> s ''timeSpeed'' = Some (JNumber (Num v))"
    and mn: "m \<le> n" and n: "n \<le> length ss"
  have t0: "time (mount reg) = Num 0"
    by (simp add: mount_def)
  have "\<forall>s\<in>set (take m ss). \<exists>v. 0 \<le> v \<and> s ''timeSpeed'' = Some (JNumber (Num v))"
    using speeds by (meson in_set_takeD)
  from frames_time_mono [OF this t0]
  obtain a where a: "time (frames reg (take m ss) (mount reg)) = Num a"
    by blast
  have split: "take n ss = take m ss @ drop m (take n ss)"
    using mn by (metis append_take_drop_id min.absorb1 take_take)
  have "\<forall>s\<in>set (drop m (take n ss)). \<exists>v. 0 \<le> v \<and> s ''timeSpeed'' = Some (JNumber (Num v))"
    using speeds by (meson in_set_dropD in_set_takeD)
  from frames_time_mono [OF this a]
  obtain b where "time (frames reg (drop m (take n ss)) (frames reg (take m ss) (mount reg))) = Num b"
    and "a \<le> b"
    by blast
  then have "time (frames reg (take n ss) (mount reg)) = Num b \<and> a \<le> b"
    by (subst split) (simp add: frames_append)
  with a show "\<exists>a b. time (frames reg (take m ss) (mount reg)) = Num a \<and>
                time (frames reg (take n ss) (mount reg)) = Num b \<and> a \<le> b"
    by blast
qed

theorem C8_witness:
  "time (mount planetaryData) = Num 0 \<and>
   property planetaryData ''earth'' = Some earth \<and>
   time (frames planetaryData [simulationSettings] (mount planetaryData)) = Num 0.01 \<and>
   time (frames planetaryData
           [simulationSettings, handleSettingChange ''timeSpeed'' (JNumber (Num 2)) simulationSettings]
           (mount planetaryData)) = Num 0.03"
proof -
  let ?ss = "[simulationSettings,
              handleSettingChange ''timeSpeed'' (JNumber (Num 2)) simulationSettings]"
  have e: "property planetaryData ''earth'' = Some earth"
    by (simp add: property_def planetaryData_def)
  then have safe: "\<forall>data\<in>set (Object_values planetaryData).
             truthy_string (parent data) \<longrightarrow> property planetaryData ''earth'' \<noteq> None"
    by simp
  have v: "to_number (simulationSettings ''timeSpeed'') = Num 1"
    "to_number (handleSettingChange ''timeSpeed'' (JNumber (Num 2)) simulationSettings ''timeSpeed'')
       = Num 2"
    by (simp_all add: simulationSettings_def handleSettingChange_def)
  from C8_clock [of planetaryData ?ss] safe
  have t0: "time (mount planetaryData) = Num 0"
    and step: "\<forall>n<length ?ss.
         time (frames planetaryData (take (Suc n) ?ss) (mount planetaryData)) =
           add (time (frames planetaryData (take n ?ss) (mount planetaryData)))
               (mul (to_number ((?ss ! n) ''timeSpeed'')) (Num 0.01))"
    by blast+
  from step have "time (frames planetaryData (take (Suc 0) ?ss) (mount planetaryData)) =
           add (time (frames planetaryData (take 0 ?ss) (mount planetaryData)))
               (mul (to_number ((?ss ! 0) ''timeSpeed'')) (Num 0.01))"
    by (metis length_Cons zero_less_Suc)
  then have t1: "time (frames planetaryData [simulationSettings] (mount planetaryData)) = Num 0.01"
    by (simp add: t0 v del: frames.simps) (simp add: t0)
  from step have "time (frames planetaryData (take (Suc 1) ?ss) (mount planetaryData)) =
           add (time (frames planetaryData (take 1 ?ss) (mount planetaryData)))
               (mul (to_number ((?ss ! 1) ''timeSpeed'')) (Num 0.01))"
    by (metis One_nat_def length_Cons lessI list.size(3))
  then have t2: "time (frames planetaryData ?ss (mount planetaryData)) = Num 0.03"
    using t1 by (simp add: v del: frames.simps)
  from t0 e t1 t2 show ?thesis
    by blast
qed

end
